theory Spec2Isabelle
  imports Complex_Main
begin

section \<open>The maintenance calorie calculator (calorie\_calculator.py)\<close>

text \<open>
  The module holds one table, \<open>ACTIVITY_FACTORS\<close>, two functions, \<open>calculate_bmr\<close>
  and \<open>calculate_tdee\<close>, and a demonstration block run under \<open>__main__\<close>.

  Numbers: Python's \<open>float\<close> is modelled by \<open>real\<close> and Python's unbounded \<open>int\<close> by
  \<open>int\<close>, following the annotations of the two functions (weight, height, BMR:
  \<open>float\<close>; age: \<open>int\<close>). The arithmetic of the model is therefore exact: the
  rounding of binary64, its infinities and NaN are not part of it. What is part of it
  is every way in which the code raises: the two \<open>raise\<close> statements, and the
  conversion of an \<open>int\<close> to a \<open>float\<close>, which fails on an \<open>int\<close> beyond the range
  of binary64. Strings are \<open>string\<close> (lists of 8-bit characters).
\<close>

subsection \<open>The string methods the module calls\<close>

text \<open>
  \<open>str.lower\<close>: an upper-case ASCII letter (codes 65 to 90) is moved to its lower-case
  letter (code plus 32), every other character is kept. Python lowers letters outside
  ASCII as well; none of them is lowered to a letter that occurs in \<open>male\<close>,
  \<open>female\<close> or a key of the table, so the comparisons made by the two functions come
  out the same.
\<close>

definition lower_char :: "char \<Rightarrow> char" where
  "lower_char c =
     (let n = (of_char c :: nat) in if 65 \<le> n \<and> n \<le> 90 then char_of (n + 32) else c)"

definition lower :: "string \<Rightarrow> string" where
  "lower s = map lower_char s"

text \<open>
  \<open>str.replace(old, new)\<close> for a pattern \<open>old\<close> of one character: every occurrence of
  that character is replaced. The module calls it as \<open>replace(" ", "_")\<close> only.
\<close>

definition replace :: "char \<Rightarrow> char \<Rightarrow> string \<Rightarrow> string" where
  "replace old new s = map (\<lambda>c. if c = old then new else c) s"

text \<open>\<open>sep.join(xs)\<close>: the strings of \<open>xs\<close> with \<open>sep\<close> between neighbours.\<close>

fun join :: "string \<Rightarrow> string list \<Rightarrow> string" where
  "join sep [] = []"
| "join sep [x] = x"
| "join sep (x # y # ys) = x @ sep @ join sep (y # ys)"

subsection \<open>Errors\<close>

text \<open>
  Both functions raise \<open>ValueError\<close> with a message, and the interpreter raises
  \<open>OverflowError\<close> with its own message. A call returns \<open>Inl\<close> of the error or
  \<open>Inr\<close> of the number.
\<close>

datatype error = ValueError string | OverflowError string

subsection \<open>From int to float\<close>

text \<open>
  Arithmetic between a \<open>float\<close> and an \<open>int\<close> converts the \<open>int\<close> first. The
  conversion rounds to the nearest float and raises \<open>OverflowError\<close> when that is
  beyond the largest one, \<open>2 ^ 1024 - 2 ^ 971\<close>: from the magnitude
  \<open>2 ^ 1024 - 2 ^ 970\<close> on, halfway to \<open>2 ^ 1024\<close>. Below it the model gives the
  \<open>int\<close> itself, as a real.
\<close>

definition int_to_float_limit :: int where
  "int_to_float_limit = 2 ^ 1024 - 2 ^ 970"

definition int_to_float :: "int \<Rightarrow> error + real" where
  "int_to_float n =
     (if int_to_float_limit \<le> \<bar>n\<bar>
      then Inl (OverflowError ''int too large to convert to float'')
      else Inr (of_int n))"

subsection \<open>The activity-factor table\<close>

text \<open>
  A Python dict keeps its insertion order, and the error message of \<open>calculate_tdee\<close>
  lists the keys in that order, so the table is an association list.
\<close>

type_synonym table = "(string \<times> real) list"

definition ACTIVITY_FACTORS :: table where
  "ACTIVITY_FACTORS =
     [(''sedentary'', 1.2),
      (''lightly_active'', 1.375),
      (''moderately_active'', 1.55),
      (''very_active'', 1.725),
      (''super_active'', 1.9)]"

text \<open>\<open>d.keys()\<close>, in insertion order.\<close>

definition keys :: "table \<Rightarrow> string list" where
  "keys d = map fst d"

subsection \<open>calculate\_bmr\<close>

text \<open>
  In line 31, \<open>(10 * weight_kg) + (6.25 * height_cm) - (5 * age)\<close>, the product
  \<open>5 * age\<close> is an \<open>int\<close>, and subtracting it from a \<open>float\<close> converts it: this is
  where the function can raise \<open>OverflowError\<close>, after the check of the gender.
\<close>

definition calculate_bmr :: "real \<Rightarrow> real \<Rightarrow> int \<Rightarrow> string \<Rightarrow> error + real" where
  "calculate_bmr weight_kg height_cm age gender =
     (if lower gender \<notin> set [''male'', ''female'']
      then Inl (ValueError ''Gender must be 'male' or 'female'.'')
      else
        case int_to_float (5 * age) of
          Inl e \<Rightarrow> Inl e
        | Inr five_age \<Rightarrow>
            let base_bmr = (10 * weight_kg) + (6.25 * height_cm) - five_age
            in if lower gender = ''male''
               then Inr (base_bmr + 5)
               else Inr (base_bmr - 161))"

subsection \<open>calculate\_tdee\<close>

text \<open>
  Line 56 of the source rebinds \<open>activity_level\<close> to its normal form:
  \<open>activity_level.lower().replace(" ", "_")\<close>.
\<close>

definition normalize_level :: "string \<Rightarrow> string" where
  "normalize_level activity_level = replace (CHR '' '') (CHR ''_'') (lower activity_level)"

text \<open>
  The body of \<open>calculate_tdee\<close>, reading the table it is given: \<open>calculate_tdee_in\<close>
  takes the value of the module's global as its first argument.
\<close>

definition calculate_tdee_in :: "table \<Rightarrow> real \<Rightarrow> string \<Rightarrow> error + real" where
  "calculate_tdee_in factors bmr activity_level =
     (let activity_level = normalize_level activity_level
      in case map_of factors activity_level of
           None \<Rightarrow>
             Inl (ValueError (''Invalid activity level. Choose from: '' @ join '', '' (keys factors)))
         | Some activity_factor \<Rightarrow> Inr (bmr * activity_factor))"

definition calculate_tdee :: "real \<Rightarrow> string \<Rightarrow> error + real" where
  "calculate_tdee bmr activity_level = calculate_tdee_in ACTIVITY_FACTORS bmr activity_level"

subsection \<open>The demonstration block\<close>

text \<open>
  \<open>round(x, ndigits)\<close> on a float: the nearest multiple of \<open>10 ^ (- ndigits)\<close>,
  a tie going to the even one. \<open>math.ceil\<close> is \<open>ceiling\<close>.
\<close>

definition round_half_even :: "real \<Rightarrow> int" where
  "round_half_even x =
     (let f = \<lfloor>x\<rfloor>; d = x - of_int f
      in if d < 1 / 2 then f
         else if 1 / 2 < d then f + 1
         else if even f then f else f + 1)"

definition round_py :: "real \<Rightarrow> nat \<Rightarrow> real" where
  "round_py x ndigits = of_int (round_half_even (x * 10 ^ ndigits)) / 10 ^ ndigits"

text \<open>
  The block under \<open>__main__\<close> prints two header lines, which show the inputs only and
  are left out here, and then, inside \<open>try\<close>, the BMR rounded to two places and the
  TDEE rounded up; a \<open>ValueError\<close> of either call ends the block with the line of the
  error message. The \<open>except\<close> clause names \<open>ValueError\<close> only: any other error is
  not caught and ends the program with the interpreter's report of it. The output is
  the list of these lines, each holding the number, the message or the error it shows.
\<close>

datatype line = BMR_line real | TDEE_line int | Error_line string | Uncaught_line error

definition main :: "line list" where
  "main =
     (let age = 20; height_cm = 165; weight_kg = 53;
          gender = ''male''; activity_level = ''lightly_active''
      in case calculate_bmr weight_kg height_cm age gender of
           Inl (ValueError e) \<Rightarrow> [Error_line e]
         | Inl err \<Rightarrow> [Uncaught_line err]
         | Inr bmr_result \<Rightarrow>
             BMR_line (round_py bmr_result 2) #
             (case calculate_tdee bmr_result activity_level of
                Inl (ValueError e) \<Rightarrow> [Error_line e]
              | Inl err \<Rightarrow> [Uncaught_line err]
              | Inr tdee_result \<Rightarrow> [TDEE_line \<lceil>tdee_result\<rceil>]))"

section \<open>Properties\<close>

subsection \<open>Strings and the table\<close>

lemma lower_char_idem: "lower_char (lower_char c) = lower_char c"
  by (simp add: lower_char_def Let_def)

lemma lower_idem: "lower (lower s) = lower s"
  by (simp add: lower_def lower_char_idem)

text \<open>No letter is lowered to a space: only the space itself gives a space.\<close>

lemma lower_char_space: "lower_char c = CHR '' '' \<longleftrightarrow> c = CHR '' ''"
proof
  assume h: "lower_char c = CHR '' ''"
  show "c = CHR '' ''"
  proof (cases "65 \<le> (of_char c :: nat) \<and> (of_char c :: nat) \<le> 90")
    case True
    then have "lower_char c = char_of ((of_char c :: nat) + 32)"
      by (simp add: lower_char_def Let_def)
    with h have "(of_char (char_of ((of_char c :: nat) + 32)) :: nat) = of_char (CHR '' '')"
      by simp
    with True show ?thesis by simp
  next
    case False
    with h show ?thesis by (simp add: lower_char_def Let_def)
  qed
next
  assume "c = CHR '' ''"
  then show "lower_char c = CHR '' ''" by (simp add: lower_char_def)
qed

lemma lower_char_underscore: "lower_char (CHR ''_'') = CHR ''_''"
  by (simp add: lower_char_def)

lemma normalize_idem: "normalize_level (normalize_level s) = normalize_level s"
  by (induction s)
     (auto simp: normalize_level_def lower_def replace_def lower_char_idem
        lower_char_underscore lower_char_space)

lemma lower_samples:
  "lower ''male'' = ''male''" "lower ''Male'' = ''male''" "lower ''MALE'' = ''male''"
  "lower ''female'' = ''female''" "lower ''Female'' = ''female''"
  "lower ''FEMALE'' = ''female''"
  "lower ''other'' = ''other''" "lower [] = []" "lower ''man'' = ''man''"
  "lower ''x'' = ''x''"
  by (simp_all add: lower_def lower_char_def char_of_def bit_Suc_0_iff)

lemma normalize_samples:
  "normalize_level ''sedentary'' = ''sedentary''"
  "normalize_level ''lightly_active'' = ''lightly_active''"
  "normalize_level ''Lightly Active'' = ''lightly_active''"
  "normalize_level ''Moderately_Active'' = ''moderately_active''"
  "normalize_level ''VERY ACTIVE'' = ''very_active''"
  "normalize_level ''super active'' = ''super_active''"
  "normalize_level ''extreme'' = ''extreme''"
  by (simp_all add: normalize_level_def replace_def lower_def lower_char_def char_of_def
        bit_Suc_0_iff)

lemma in_keys_iff: "k \<in> set (keys d) \<longleftrightarrow> map_of d k \<noteq> None"
  by (simp add: keys_def map_of_eq_None_iff)

lemma keys_ACTIVITY_FACTORS:
  "keys ACTIVITY_FACTORS =
     [''sedentary'', ''lightly_active'', ''moderately_active'', ''very_active'',
      ''super_active'']"
  by (simp add: keys_def ACTIVITY_FACTORS_def)

lemma lookup_ACTIVITY_FACTORS:
  "map_of ACTIVITY_FACTORS ''sedentary'' = Some 1.2"
  "map_of ACTIVITY_FACTORS ''lightly_active'' = Some 1.375"
  "map_of ACTIVITY_FACTORS ''moderately_active'' = Some 1.55"
  "map_of ACTIVITY_FACTORS ''very_active'' = Some 1.725"
  "map_of ACTIVITY_FACTORS ''super_active'' = Some 1.9"
  by (simp_all add: ACTIVITY_FACTORS_def)

lemma factors_at_least: "(k, f) \<in> set ACTIVITY_FACTORS \<Longrightarrow> 1.2 \<le> f"
  by (auto simp: ACTIVITY_FACTORS_def)

lemma calculate_tdee_Some:
  "map_of ACTIVITY_FACTORS (normalize_level s) = Some f \<Longrightarrow> calculate_tdee bmr s = Inr (bmr * f)"
  by (simp add: calculate_tdee_def calculate_tdee_in_def)

lemma calculate_tdee_None:
  "map_of ACTIVITY_FACTORS (normalize_level s) = None \<Longrightarrow>
   calculate_tdee bmr s =
     Inl (ValueError (''Invalid activity level. Choose from: '' @
       join '', '' (keys ACTIVITY_FACTORS)))"
  by (simp add: calculate_tdee_def calculate_tdee_in_def)

subsection \<open>The conversion\<close>

lemma int_to_float_in_range:
  "\<bar>n\<bar> < int_to_float_limit \<Longrightarrow> int_to_float n = Inr (of_int n)"
  by (simp add: int_to_float_def)


lemma int_to_float_no_ValueError: "int_to_float n \<noteq> Inl (ValueError m)"
  by (simp add: int_to_float_def)




lemma small_in_range: "\<bar>n\<bar> \<le> 1000 \<Longrightarrow> \<bar>n\<bar> < int_to_float_limit"
proof -
  assume n: "\<bar>n\<bar> \<le> 1000"
  have "(2::int) ^ 970 * 1 \<le> 2 ^ 970 * (2 ^ 54 - 1)"
    by (intro mult_left_mono) simp_all
  also have "(2::int) ^ 970 * (2 ^ 54 - 1) = 2 ^ (970 + 54) - 2 ^ 970"
    by (simp only: power_add right_diff_distrib mult_1_right)
  also have "(970::nat) + 54 = 1024"
    by simp
  finally have a: "(2::int) ^ 970 \<le> int_to_float_limit"
    by (simp only: int_to_float_limit_def mult_1_right)
  have "(2::int) ^ 10 \<le> 2 ^ 970"
    by (rule power_increasing) simp_all
  moreover have "(1000::int) < 2 ^ 10"
    by simp
  ultimately have "(1000::int) < 2 ^ 970"
    by (rule less_le_trans [rotated])
  with n a show ?thesis
    by (blast intro: le_less_trans less_le_trans)
qed

lemma calculate_bmr_in_range:
  "\<bar>5 * age\<bar> < int_to_float_limit \<Longrightarrow>
   lower gender = ''male'' \<or> lower gender = ''female'' \<Longrightarrow>
   calculate_bmr weight_kg height_cm age gender =
     Inr (10 * weight_kg + 6.25 * height_cm - 5 * of_int age +
          (if lower gender = ''male'' then 5 else - 161))"
  by (auto simp: calculate_bmr_def int_to_float_in_range)


subsection \<open>The claims\<close>




text \<open>
  C2. For every \<open>bmr\<close> and every activity level that normalizes to one of the five
  keys, \<open>calculate_tdee\<close> returns \<open>bmr\<close> times the factor of that key: 1.2, 1.375,
  1.55, 1.725, 1.9.
\<close>

theorem calculate_tdee_factor:
  "(normalize_level activity_level = ''sedentary'' \<longrightarrow>
      calculate_tdee bmr activity_level = Inr (bmr * 1.2)) \<and>
   (normalize_level activity_level = ''lightly_active'' \<longrightarrow>
      calculate_tdee bmr activity_level = Inr (bmr * 1.375)) \<and>
   (normalize_level activity_level = ''moderately_active'' \<longrightarrow>
      calculate_tdee bmr activity_level = Inr (bmr * 1.55)) \<and>
   (normalize_level activity_level = ''very_active'' \<longrightarrow>
      calculate_tdee bmr activity_level = Inr (bmr * 1.725)) \<and>
   (normalize_level activity_level = ''super_active'' \<longrightarrow>
      calculate_tdee bmr activity_level = Inr (bmr * 1.9))"
  by (auto simp: calculate_tdee_def calculate_tdee_in_def lookup_ACTIVITY_FACTORS)

theorem calculate_tdee_factor_witness:
  "calculate_tdee 2000 ''sedentary'' = Inr 2400 \<and>
   calculate_tdee 2000 ''Lightly Active'' = Inr 2750 \<and>
   calculate_tdee 2000 ''Moderately_Active'' = Inr 3100 \<and>
   calculate_tdee 2000 ''VERY ACTIVE'' = Inr 3450 \<and>
   calculate_tdee 2000 ''super active'' = Inr 3800"
  using calculate_tdee_factor [where activity_level = "''sedentary''" and bmr = 2000]
        calculate_tdee_factor [where activity_level = "''Lightly Active''" and bmr = 2000]
        calculate_tdee_factor [where activity_level = "''Moderately_Active''" and bmr = 2000]
        calculate_tdee_factor [where activity_level = "''VERY ACTIVE''" and bmr = 2000]
        calculate_tdee_factor [where activity_level = "''super active''" and bmr = 2000]
  by (simp add: normalize_samples)

text \<open>
  C3. \<open>calculate_bmr\<close> raises its \<open>ValueError\<close> exactly when the lower-case form of
  the gender is neither \<open>male\<close> nor \<open>female\<close>, and then it returns no number.
\<close>

theorem calculate_bmr_error_iff:
  "((calculate_bmr weight_kg height_cm age gender =
       Inl (ValueError ''Gender must be 'male' or 'female'.'')) =
      (lower gender \<noteq> ''male'' \<and> lower gender \<noteq> ''female'')) \<and>
   ((\<exists>m. calculate_bmr weight_kg height_cm age gender = Inl (ValueError m)) =
      (lower gender \<noteq> ''male'' \<and> lower gender \<noteq> ''female'')) \<and>
   (lower gender \<noteq> ''male'' \<and> lower gender \<noteq> ''female'' \<longrightarrow>
      (\<forall>v. calculate_bmr weight_kg height_cm age gender \<noteq> Inr v))"
  by (auto simp: calculate_bmr_def int_to_float_no_ValueError Let_def split: sum.splits)

theorem calculate_bmr_error_iff_witness:
  "calculate_bmr 70 170 30 ''other'' = Inl (ValueError ''Gender must be 'male' or 'female'.'') \<and>
   calculate_bmr 70 170 30 [] = Inl (ValueError ''Gender must be 'male' or 'female'.'') \<and>
   calculate_bmr 70 170 30 ''man'' = Inl (ValueError ''Gender must be 'male' or 'female'.'') \<and>
   (\<nexists>v. calculate_bmr 70 170 30 ''x'' = Inr v) \<and>
   (\<nexists>m. calculate_bmr 70 170 30 ''FEMALE'' = Inl (ValueError m))"
  using calculate_bmr_error_iff [where gender = "''other''" and weight_kg = 70
          and height_cm = 170 and age = 30]
        calculate_bmr_error_iff [where gender = "[]" and weight_kg = 70
          and height_cm = 170 and age = 30]
        calculate_bmr_error_iff [where gender = "''man''" and weight_kg = 70
          and height_cm = 170 and age = 30]
        calculate_bmr_error_iff [where gender = "''x''" and weight_kg = 70
          and height_cm = 170 and age = 30]
        calculate_bmr_error_iff [where gender = "''FEMALE''" and weight_kg = 70
          and height_cm = 170 and age = 30]
  by (simp add: lower_samples)

text \<open>
  C4. For every \<open>bmr\<close> and every activity level whose normal form is not a key of the
  table, \<open>calculate_tdee\<close> raises its error, and the message lists the keys in the
  order of the table's definition: sedentary, lightly\_active, moderately\_active,
  very\_active, super\_active.
\<close>

theorem calculate_tdee_invalid:
  "normalize_level activity_level \<notin> set (keys ACTIVITY_FACTORS) \<Longrightarrow>
   calculate_tdee bmr activity_level =
     Inl (ValueError ''Invalid activity level. Choose from: sedentary, lightly_active, moderately_active, very_active, super_active'')"
proof -
  assume "normalize_level activity_level \<notin> set (keys ACTIVITY_FACTORS)"
  then have "map_of ACTIVITY_FACTORS (normalize_level activity_level) = None"
    by (simp add: in_keys_iff)
  then show ?thesis
    by (simp add: calculate_tdee_None keys_ACTIVITY_FACTORS)
qed

theorem calculate_tdee_invalid_witness:
  "normalize_level ''extreme'' \<notin> set (keys ACTIVITY_FACTORS) \<and>
   calculate_tdee 1500 ''extreme'' =
     Inl (ValueError ''Invalid activity level. Choose from: sedentary, lightly_active, moderately_active, very_active, super_active'')"
proof -
  have h: "normalize_level ''extreme'' \<notin> set (keys ACTIVITY_FACTORS)"
    by (simp add: normalize_samples keys_ACTIVITY_FACTORS)
  show ?thesis
    using h calculate_tdee_invalid [OF h, of 1500] by simp
qed

text \<open>
  C5. \<open>calculate_bmr\<close> does not depend on the case of the gender: a string and its
  lower-case form give the same result, value or error; \<open>Male\<close>, \<open>MALE\<close> and \<open>male\<close>
  give the same result.
\<close>

theorem calculate_bmr_case_insensitive:
  "calculate_bmr weight_kg height_cm age gender =
     calculate_bmr weight_kg height_cm age (lower gender) \<and>
   calculate_bmr weight_kg height_cm age ''Male'' =
     calculate_bmr weight_kg height_cm age ''male'' \<and>
   calculate_bmr weight_kg height_cm age ''MALE'' =
     calculate_bmr weight_kg height_cm age ''male''"
  by (simp add: calculate_bmr_def lower_idem lower_samples split: sum.splits)

text \<open>
  C6. \<open>calculate_tdee\<close> normalizes its activity level (lower case, spaces to
  underscores): a string and its normal form give the same result, and
  \<open>Lightly Active\<close> and \<open>lightly_active\<close> give the same multiplier.
\<close>

theorem calculate_tdee_normalizes:
  "calculate_tdee bmr activity_level = calculate_tdee bmr (normalize_level activity_level) \<and>
   calculate_tdee bmr ''Lightly Active'' = calculate_tdee bmr ''lightly_active'' \<and>
   calculate_tdee bmr ''Lightly Active'' = Inr (bmr * 1.375)"
  by (simp add: calculate_tdee_def calculate_tdee_in_def normalize_idem normalize_samples
        lookup_ACTIVITY_FACTORS)




text \<open>
  C9. For weight 53, height 165, age 20 and gender \<open>male\<close>, \<open>calculate_bmr\<close> returns
  1466.25; \<open>calculate_tdee\<close> of that with \<open>lightly_active\<close> returns 2016.09375; the
  demonstration block shows it rounded up, 2017.
\<close>

theorem demonstration_scenario:
  "calculate_bmr 53 165 20 ''male'' = Inr 1466.25 \<and>
   calculate_tdee 1466.25 ''lightly_active'' = Inr 2016.09375 \<and>
   main = [BMR_line 1466.25, TDEE_line 2017]"
proof -
  have bmr: "calculate_bmr 53 165 20 ''male'' = Inr 1466.25"
    using calculate_bmr_in_range [of 20 "''male''" 53 165] small_in_range [of "5 * 20"]
    by (simp add: lower_samples)
  have tdee: "calculate_tdee 1466.25 ''lightly_active'' = Inr 2016.09375"
    by (simp add: calculate_tdee_def calculate_tdee_in_def normalize_samples
          lookup_ACTIVITY_FACTORS)
  have r: "round_py 1466.25 2 = 1466.25"
    by (simp add: round_py_def round_half_even_def Let_def)
  have c: "\<lceil>2016.09375 :: real\<rceil> = 2017"
    by simp
  have "main = [BMR_line 1466.25, TDEE_line 2017]"
    by (simp only: main_def Let_def bmr tdee r c sum.case)
  with bmr tdee show ?thesis by simp
qed

text \<open>
  C10. Every factor of the table is at least 1.2, so for every \<open>bmr \<ge> 0\<close> and every
  activity level that normalizes to a key of the table, \<open>calculate_tdee\<close> returns a
  value that is not below \<open>bmr\<close>.
\<close>

theorem calculate_tdee_ge_bmr:
  "list_all (\<lambda>(k, f). 1.2 \<le> f) ACTIVITY_FACTORS \<and>
   (0 \<le> bmr \<and> normalize_level activity_level \<in> set (keys ACTIVITY_FACTORS) \<longrightarrow>
      (\<exists>tdee. calculate_tdee bmr activity_level = Inr tdee \<and> bmr \<le> tdee))"
proof (intro conjI impI)
  show "list_all (\<lambda>(k, f). 1.2 \<le> f) ACTIVITY_FACTORS"
    by (simp add: ACTIVITY_FACTORS_def)
next
  assume h: "0 \<le> bmr \<and> normalize_level activity_level \<in> set (keys ACTIVITY_FACTORS)"
  then obtain f where f: "map_of ACTIVITY_FACTORS (normalize_level activity_level) = Some f"
    by (auto simp: in_keys_iff)
  then have "(normalize_level activity_level, f) \<in> set ACTIVITY_FACTORS"
    by (rule map_of_SomeD)
  then have "1 \<le> f"
    using factors_at_least by fastforce
  with h have "bmr * 1 \<le> bmr * f"
    by (intro mult_left_mono) simp_all
  with f show "\<exists>tdee. calculate_tdee bmr activity_level = Inr tdee \<and> bmr \<le> tdee"
    by (simp add: calculate_tdee_Some)
qed

theorem calculate_tdee_ge_bmr_witness:
  "(0::real) \<le> 1466.25 \<and> normalize_level ''Lightly Active'' \<in> set (keys ACTIVITY_FACTORS) \<and>
   (\<exists>tdee. calculate_tdee 1466.25 ''Lightly Active'' = Inr tdee \<and> 1466.25 \<le> tdee)"
  using calculate_tdee_ge_bmr [where bmr = "1466.25" and activity_level = "''Lightly Active''"]
  by (simp add: normalize_samples keys_ACTIVITY_FACTORS)

end
